theory Spec2Isabelle
  imports Complex_Main
begin

section \<open>PDF Field Mapper: field geometry, selection and the import/export codec\<close>

text \<open>
  The development follows the second revision of \<^verbatim>\<open>src/App.tsx\<close> (the one with
  multi-selection, lasso, drag with snapping and \<^verbatim>\<open>syncY\<close>).

  JavaScript numbers are modelled as exact real numbers: the rounding error of double
  arithmetic, \<^verbatim>\<open>NaN\<close> and the infinities are outside the model. Apart from the
  divisions by the constant 100, every division of the source is by a side of the
  overlay's bounding rectangle; the theorems about the pointer handlers assume the sides
  are positive, because HOL's \<open>x / 0 = 0\<close> is not what the program computes.

  An exception that leaves a handler is the value \<open>Inl\<close> of its result; the handlers
  that can throw set no state before they do.
\<close>

type_synonym number = real

subsection \<open>Run-time values\<close>

text \<open>
  The value of \<^verbatim>\<open>JSON.parse\<close>, and of a property read on it (\<open>JUndefined\<close> when the
  property is absent). An object is the list of its own properties, each name once.
\<close>

datatype jsval =
    JUndefined
  | JNull
  | JBool bool
  | JNum number
  | JStr string
  | JArr "jsval list"
  | JObj "(string \<times> jsval) list"

text \<open>Truthiness, as \<^verbatim>\<open>if (v)\<close> and \<^verbatim>\<open>v || d\<close> test it.\<close>

fun truthy :: "jsval \<Rightarrow> bool" where
  "truthy JUndefined = False"
| "truthy JNull = False"
| "truthy (JBool b) = b"
| "truthy (JNum n) = (n \<noteq> 0)"
| "truthy (JStr s) = (s \<noteq> [])"
| "truthy (JArr vs) = True"
| "truthy (JObj kvs) = True"

text \<open>\<^verbatim>\<open>a || b\<close>\<close>

definition js_or :: "jsval \<Rightarrow> jsval \<Rightarrow> jsval" where
  "js_or a b = (if truthy a then a else b)"

text \<open>
  \<^verbatim>\<open>v.k\<close> for a value \<open>v\<close> that is neither \<^verbatim>\<open>null\<close> nor \<^verbatim>\<open>undefined\<close>, and a
  property name \<open>k\<close> among those the program reads (\<^verbatim>\<open>id\<close>, \<^verbatim>\<open>page\<close>,
  \<^verbatim>\<open>variableName\<close>, \<^verbatim>\<open>x\<close>, \<^verbatim>\<open>y\<close>, \<^verbatim>\<open>width\<close>, \<^verbatim>\<open>height\<close>,
  \<^verbatim>\<open>percentageCoordinates\<close>): none of them is a property of a number, a string, a
  boolean or an array, so only an object can answer with something else than
  \<^verbatim>\<open>undefined\<close>. Reading a property of \<^verbatim>\<open>null\<close> throws; the callers test for it.
\<close>

fun get_prop :: "jsval \<Rightarrow> string \<Rightarrow> jsval" where
  "get_prop (JObj kvs) k = (case map_of kvs k of Some v \<Rightarrow> v | None \<Rightarrow> JUndefined)"
| "get_prop v k = JUndefined"

datatype error = SyntaxError | NotAnArray | TypeError

subsection \<open>Fields\<close>

text \<open>\<^verbatim>\<open>interface Field\<close>: a field whose properties have their declared types.\<close>

record Field =
  f_id :: string
  f_page :: number
  f_x :: number
  f_y :: number
  f_width :: number
  f_height :: number
  f_variableName :: string

text \<open>
  The object that the callback of \<^verbatim>\<open>jsonData.map\<close> in \<^verbatim>\<open>handleJsonUpload\<close> builds.
  The element is typed \<^verbatim>\<open>any\<close>, so each property holds whatever the file held there.
\<close>

record ImportedField =
  i_id :: jsval
  i_page :: jsval
  i_variableName :: jsval
  i_x :: jsval
  i_y :: jsval
  i_width :: jsval
  i_height :: jsval

subsection \<open>Import\<close>

text \<open>
  \<^verbatim>\<open>generateId()\<close> returns a fresh random token. The model takes the sequence \<open>ids\<close>
  of the tokens that successive calls return, and counts the calls made so far.
\<close>

definition or_generateId :: "(nat \<Rightarrow> string) \<Rightarrow> nat \<Rightarrow> jsval \<Rightarrow> jsval \<times> nat" where
  "or_generateId ids n v = (if truthy v then (v, n) else (JStr (ids n), Suc n))"

text \<open>\<^verbatim>\<open>v || `var_${generateId().substring(0,4)}`\<close>\<close>

definition or_generateName :: "(nat \<Rightarrow> string) \<Rightarrow> nat \<Rightarrow> jsval \<Rightarrow> jsval \<times> nat" where
  "or_generateName ids n v =
     (if truthy v then (v, n) else (JStr (''var_'' @ take 4 (ids n)), Suc n))"

text \<open>
  The callback of \<^verbatim>\<open>jsonData.map\<close> (lines 981 to 1003). The result comes with
  the count of \<^verbatim>\<open>generateId\<close> calls made, also when the callback throws.
\<close>

definition importItem ::
  "(nat \<Rightarrow> string) \<Rightarrow> nat \<Rightarrow> jsval \<Rightarrow> (error + ImportedField) \<times> nat" where
  "importItem ids n item =
     (if item = JNull \<or> item = JUndefined then (Inl TypeError, n)
      else if truthy (get_prop item ''percentageCoordinates'') then
        (let pc = get_prop item ''percentageCoordinates'';
             (idv, n1) = or_generateId ids n (get_prop item ''id'')
         in (Inr \<lparr> i_id = idv,
                   i_page = get_prop item ''page'',
                   i_variableName = get_prop item ''variableName'',
                   i_x = get_prop pc ''x'',
                   i_y = get_prop pc ''y'',
                   i_width = get_prop pc ''width'',
                   i_height = get_prop pc ''height'' \<rparr>, n1))
      else
        (let (idv, n1) = or_generateId ids n (get_prop item ''id'');
             (name, n2) = or_generateName ids n1 (get_prop item ''variableName'')
         in (Inr \<lparr> i_id = idv,
                   i_page = js_or (get_prop item ''page'') (JNum 1),
                   i_variableName = name,
                   i_x = js_or (get_prop item ''x'') (JNum 0),
                   i_y = js_or (get_prop item ''y'') (JNum 0),
                   i_width = js_or (get_prop item ''width'') (JNum 10),
                   i_height = js_or (get_prop item ''height'') (JNum 5) \<rparr>, n2)))"

text \<open>\<^verbatim>\<open>jsonData.map(...)\<close>: left to right; an exception in the callback ends the map.\<close>

fun importItems ::
  "(nat \<Rightarrow> string) \<Rightarrow> nat \<Rightarrow> jsval list \<Rightarrow> (error + ImportedField list) \<times> nat" where
  "importItems ids n [] = (Inr [], n)"
| "importItems ids n (item # items) =
     (case importItem ids n item of
        (Inl e, n1) \<Rightarrow> (Inl e, n1)
      | (Inr fld, n1) \<Rightarrow>
          (case importItems ids n1 items of
             (Inl e, n2) \<Rightarrow> (Inl e, n2)
           | (Inr flds, n2) \<Rightarrow> (Inr (fld # flds), n2)))"

text \<open>
  The body of the \<^verbatim>\<open>try\<close> block up to \<^verbatim>\<open>setFields\<close> (lines 974 to 1003).
  \<open>JSON_parse\<close> stands for the built-in parser: \<open>None\<close> when it throws.
\<close>

definition parseFields ::
  "(string \<Rightarrow> jsval option) \<Rightarrow> (nat \<Rightarrow> string) \<Rightarrow> nat \<Rightarrow> string
     \<Rightarrow> (error + ImportedField list) \<times> nat" where
  "parseFields JSON_parse ids n text =
     (case JSON_parse text of
        None \<Rightarrow> (Inl SyntaxError, n)
      | Some (JArr items) \<Rightarrow> importItems ids n items
      | Some other \<Rightarrow> (Inl NotAnArray, n))"

subsection \<open>Export\<close>

text \<open>
  \<^verbatim>\<open>Number(v.toFixed(2))\<close>: \<^verbatim>\<open>toFixed\<close> rounds the magnitude to the nearest
  multiple of 1/100, a tie going to the larger magnitude, and keeps the sign. (From
  \<open>10\<^sup>2\<^sup>1\<close> on, \<^verbatim>\<open>toFixed\<close> prints the number as it is; every double of that size
  is an integer, which rounding to two decimals leaves alone.)
\<close>

definition toFixed2 :: "number \<Rightarrow> number" where
  "toFixed2 v = (if v < 0 then - (of_int \<lfloor>(- v) * 100 + 1 / 2\<rfloor> / 100)
                 else of_int \<lfloor>v * 100 + 1 / 2\<rfloor> / 100)"

record PageDim =
  dim_width :: number
  dim_height :: number

text \<open>
  \<^verbatim>\<open>pageDimensions: Record<number, {width, height}>\<close>, as the list of its entries;
  \<^verbatim>\<open>pageDimensions[p]\<close> is \<open>map_of pageDimensions p\<close>, \<^verbatim>\<open>undefined\<close> being \<open>None\<close>.
\<close>

type_synonym PageDimensions = "(number \<times> PageDim) list"

text \<open>A field object as \<^verbatim>\<open>JSON.stringify\<close> sees it.\<close>

definition fieldObject :: "Field \<Rightarrow> jsval" where
  "fieldObject f =
     JObj [(''id'', JStr (f_id f)),
           (''page'', JNum (f_page f)),
           (''x'', JNum (f_x f)),
           (''y'', JNum (f_y f)),
           (''width'', JNum (f_width f)),
           (''height'', JNum (f_height f)),
           (''variableName'', JStr (f_variableName f))]"

text \<open>The callback of \<^verbatim>\<open>fields.map\<close> in \<^verbatim>\<open>handleExport\<close> (lines 1018 to 1044).\<close>

definition exportField :: "PageDimensions \<Rightarrow> Field \<Rightarrow> jsval" where
  "exportField pageDims field =
     (case map_of pageDims (f_page field) of
        None \<Rightarrow> fieldObject field
      | Some pdim \<Rightarrow>
          (let pdfX = (f_x field / 100) * dim_width pdim;
               pdfW = (f_width field / 100) * dim_width pdim;
               pdfH = (f_height field / 100) * dim_height pdim;
               pdfY = dim_height pdim - ((f_y field + f_height field) / 100) * dim_height pdim
           in JObj [(''id'', JStr (f_id field)),
                    (''variableName'', JStr (f_variableName field)),
                    (''page'', JNum (f_page field)),
                    (''pdfCoordinates'',
                       JObj [(''x'', JNum (toFixed2 pdfX)),
                             (''y'', JNum (toFixed2 pdfY)),
                             (''width'', JNum (toFixed2 pdfW)),
                             (''height'', JNum (toFixed2 pdfH))]),
                    (''percentageCoordinates'',
                       JObj [(''x'', JNum (toFixed2 (f_x field))),
                             (''y'', JNum (toFixed2 (f_y field))),
                             (''width'', JNum (toFixed2 (f_width field))),
                             (''height'', JNum (toFixed2 (f_height field)))])]))"

text \<open>
  \<^verbatim>\<open>exportData\<close>, the array that \<^verbatim>\<open>handleExport\<close> hands to \<^verbatim>\<open>JSON.stringify\<close> and
  offers as the download \<^verbatim>\<open>pdf-fields.json\<close>.
\<close>

definition handleExport :: "PageDimensions \<Rightarrow> Field list \<Rightarrow> jsval" where
  "handleExport pageDims flds = JArr (map (exportField pageDims) flds)"

text \<open>What an exported field is expected to come back as: the claim of the round trip.\<close>

definition roundedField :: "Field \<Rightarrow> ImportedField" where
  "roundedField f =
     \<lparr> i_id = JStr (f_id f),
       i_page = JNum (f_page f),
       i_variableName = JStr (f_variableName f),
       i_x = JNum (toFixed2 (f_x f)),
       i_y = JNum (toFixed2 (f_y f)),
       i_width = JNum (toFixed2 (f_width f)),
       i_height = JNum (toFixed2 (f_height f)) \<rparr>"

text \<open>The same, for a field of the store.\<close>

definition roundField :: "Field \<Rightarrow> Field" where
  "roundField f =
     f\<lparr> f_x := toFixed2 (f_x f), f_y := toFixed2 (f_y f),
        f_width := toFixed2 (f_width f), f_height := toFixed2 (f_height f) \<rparr>"

subsection \<open>Application state\<close>

text \<open>\<^verbatim>\<open>startPos\<close>, \<^verbatim>\<open>currentPos\<close>: a point in percent of the overlay.\<close>

record Point =
  p_x :: number
  p_y :: number

record InitialPosition =
  ip_id :: string
  ip_x :: number
  ip_y :: number
  ip_width :: number
  ip_height :: number

record DragState =
  startX :: number
  startY :: number
  initialPositions :: "InitialPosition list"
  mainFieldId :: string

text \<open>An element of the \<^verbatim>\<open>updates\<close> that a drag hands to \<^verbatim>\<open>onUpdateFields\<close>.\<close>

record FieldUpdate =
  u_id :: string
  u_x :: number
  u_y :: number

text \<open>
  What the handlers read of a mouse event; \<open>targetIsOverlay\<close> is
  \<^verbatim>\<open>e.target === overlayRef.current\<close>.
\<close>

record MouseEvent =
  clientX :: number
  clientY :: number
  shiftKey :: bool
  ctrlKey :: bool
  metaKey :: bool
  targetIsOverlay :: bool

text \<open>The overlay's \<^verbatim>\<open>getBoundingClientRect()\<close>, in pixels.\<close>

record DOMRect =
  r_left :: number
  r_top :: number
  r_width :: number
  r_height :: number

text \<open>
  The calls of \<^verbatim>\<open>alert\<close>: a failed import (the message asks for a valid file exported by
  the tool) and a successful one (the message gives the number of fields).
\<close>

datatype alert = ImportFailed | ImportSucceeded nat

text \<open>
  The state of \<^verbatim>\<open>App\<close> and of \<^verbatim>\<open>DrawingOverlay\<close> that the handlers below read or
  write (\<open>fields_st\<close> is the state variable \<^verbatim>\<open>fields\<close>), the alerts shown so far, and the number of \<^verbatim>\<open>generateId\<close> calls made.
\<close>

record AppState =
  fields_st :: "Field list"
  selectedFieldIds :: "string list"
  currentPage :: number
  pageDimensions :: PageDimensions
  isDrawing :: bool
  isLasso :: bool
  startPos :: Point
  currentPos :: Point
  dragState :: "DragState option"
  snapLineY :: "number option"
  alerts :: "alert list"
  generated :: nat

text \<open>The initial values of the \<^verbatim>\<open>useState\<close> hooks.\<close>

definition initialState :: AppState where
  "initialState =
     \<lparr> fields_st = [], selectedFieldIds = [], currentPage = 1, pageDimensions = [],
       isDrawing = False, isLasso = False,
       startPos = \<lparr> p_x = 0, p_y = 0 \<rparr>, currentPos = \<lparr> p_x = 0, p_y = 0 \<rparr>,
       dragState = None, snapLineY = None, alerts = [], generated = 0 \<rparr>"

subsection \<open>Import into the store\<close>

text \<open>
  \<^verbatim>\<open>setFields(importedFields)\<close> stores the imported objects unchecked. The state above
  holds fields of the declared type only: \<open>asField\<close> reads an imported object as one,
  and is \<open>None\<close> for an object with a property of another type.
\<close>

fun asField :: "ImportedField \<Rightarrow> Field option" where
  "asField fld =
     (case (i_id fld, i_page fld, i_variableName fld) of
        (JStr a, JNum p, JStr v) \<Rightarrow>
          (case (i_x fld, i_y fld, i_width fld, i_height fld) of
             (JNum x, JNum y, JNum w, JNum h) \<Rightarrow>
               Some \<lparr> f_id = a, f_page = p, f_x = x, f_y = y, f_width = w, f_height = h,
                      f_variableName = v \<rparr>
           | _ \<Rightarrow> None)
      | _ \<Rightarrow> None)"

text \<open>
  \<^verbatim>\<open>handleJsonUpload\<close> (lines 969 to 1015). \<open>file\<close> is the text of the chosen file,
  \<open>None\<close> when no file was chosen. Every exception of the \<^verbatim>\<open>try\<close> block ends in the
  \<^verbatim>\<open>catch\<close>, which alerts and sets nothing. The result is \<open>None\<close> when the import
  succeeded with an object that is not a field of the declared type: the store then leaves
  the typed model.
\<close>

definition handleJsonUpload ::
  "(string \<Rightarrow> jsval option) \<Rightarrow> (nat \<Rightarrow> string) \<Rightarrow> string option \<Rightarrow> AppState
     \<Rightarrow> AppState option" where
  "handleJsonUpload JSON_parse ids file st =
     (case file of
        None \<Rightarrow> Some st
      | Some text \<Rightarrow>
          (case parseFields JSON_parse ids (generated st) text of
             (Inl e, n) \<Rightarrow> Some (st\<lparr> alerts := alerts st @ [ImportFailed], generated := n \<rparr>)
           | (Inr importedFields, n) \<Rightarrow>
               (case those (map asField importedFields) of
                  None \<Rightarrow> None
                | Some flds \<Rightarrow>
                    Some (st\<lparr> fields_st := flds,
                              alerts := alerts st @ [ImportSucceeded (length importedFields)],
                              generated := n \<rparr>))))"

subsection \<open>Field store handlers of \<^verbatim>\<open>App\<close>\<close>

text \<open>The delete button of a field in the side bar (lines 1183 to 1187).\<close>

definition deleteField :: "string \<Rightarrow> AppState \<Rightarrow> AppState" where
  "deleteField fid st =
     st\<lparr> fields_st := filter (\<lambda>f. f_id f \<noteq> fid) (fields_st st),
         selectedFieldIds := filter (\<lambda>i. i \<noteq> fid) (selectedFieldIds st) \<rparr>"

text \<open>The button that deletes the selected fields (lines 1135 to 1138).\<close>

definition deleteSelected :: "AppState \<Rightarrow> AppState" where
  "deleteSelected st =
     st\<lparr> fields_st := filter (\<lambda>f. f_id f \<notin> set (selectedFieldIds st)) (fields_st st),
         selectedFieldIds := [] \<rparr>"

text \<open>The name input of a field (lines 1198 to 1202).\<close>

definition renameField :: "string \<Rightarrow> string \<Rightarrow> AppState \<Rightarrow> AppState" where
  "renameField fid name st =
     st\<lparr> fields_st := map (\<lambda>f. if f_id f = fid then f\<lparr> f_variableName := name \<rparr> else f)
                       (fields_st st) \<rparr>"

text \<open>
  \<^verbatim>\<open>onUpdateFields\<close> (lines 1309 to 1314): a field takes the first update that carries
  its id.
\<close>

definition updateField :: "FieldUpdate list \<Rightarrow> Field \<Rightarrow> Field" where
  "updateField updates f =
     (case find (\<lambda>u. u_id u = f_id f) updates of
        Some u \<Rightarrow> f\<lparr> f_id := u_id u, f_x := u_x u, f_y := u_y u \<rparr>
      | None \<Rightarrow> f)"

definition applyUpdates :: "FieldUpdate list \<Rightarrow> Field list \<Rightarrow> Field list" where
  "applyUpdates updates flds = map (updateField updates) flds"

definition onUpdateFields :: "FieldUpdate list \<Rightarrow> AppState \<Rightarrow> AppState" where
  "onUpdateFields updates st = st\<lparr> fields_st := applyUpdates updates (fields_st st) \<rparr>"

text \<open>\<^verbatim>\<open>onAddField\<close> (lines 1303 to 1306).\<close>

definition onAddField :: "Field \<Rightarrow> AppState \<Rightarrow> AppState" where
  "onAddField field st =
     st\<lparr> fields_st := fields_st st @ [field], selectedFieldIds := [f_id field] \<rparr>"

text \<open>
  \<^verbatim>\<open>syncY\<close> (lines 1054 to 1067). \<^verbatim>\<open>selectedFields[0].y\<close> throws when no field of the
  store is selected.
\<close>

definition syncY :: "AppState \<Rightarrow> error + AppState" where
  "syncY st =
     (if length (selectedFieldIds st) < 2 then Inr st
      else
        (case filter (\<lambda>f. f_id f \<in> set (selectedFieldIds st)) (fields_st st) of
           [] \<Rightarrow> Inl TypeError
         | first # others \<Rightarrow>
             (let targetY = f_y first
              in Inr (st\<lparr> fields_st :=
                        map (\<lambda>f. if f_id f \<in> set (selectedFieldIds st)
                                  then f\<lparr> f_y := targetY \<rparr> else f) (fields_st st) \<rparr>))))"

subsection \<open>Pointer handlers of \<^verbatim>\<open>DrawingOverlay\<close>\<close>

text \<open>\<^verbatim>\<open>handleMouseDown\<close> (lines 683 to 699), on the overlay itself.\<close>

definition handleMouseDown :: "MouseEvent \<Rightarrow> DOMRect \<Rightarrow> AppState \<Rightarrow> AppState" where
  "handleMouseDown e rect st =
     (if \<not> targetIsOverlay e then st
      else
        (let x = ((clientX e - r_left rect) / r_width rect) * 100;
             y = ((clientY e - r_top rect) / r_height rect) * 100
         in st\<lparr> startPos := \<lparr> p_x = x, p_y = y \<rparr>,
                currentPos := \<lparr> p_x = x, p_y = y \<rparr>,
                isLasso := True,
                selectedFieldIds :=
                  (if \<not> shiftKey e \<and> \<not> ctrlKey e \<and> \<not> metaKey e then []
                   else selectedFieldIds st) \<rparr>))"

text \<open>The mode button (line 823).\<close>

definition toggleDrawing :: "AppState \<Rightarrow> AppState" where
  "toggleDrawing st = st\<lparr> isDrawing := \<not> isDrawing st, isLasso := False \<rparr>"

text \<open>\<^verbatim>\<open>onMouseDown\<close> of the box of \<open>field\<close> (lines 868 to 900).\<close>

definition snapshot :: "Field \<Rightarrow> InitialPosition" where
  "snapshot f =
     \<lparr> ip_id = f_id f, ip_x = f_x f, ip_y = f_y f, ip_width = f_width f,
       ip_height = f_height f \<rparr>"

definition fieldMouseDown :: "Field \<Rightarrow> MouseEvent \<Rightarrow> AppState \<Rightarrow> AppState" where
  "fieldMouseDown field e st =
     (let isSelected = f_id field \<in> set (selectedFieldIds st);
          nextSelection =
            (if shiftKey e \<or> ctrlKey e \<or> metaKey e then
               (if isSelected then filter (\<lambda>i. i \<noteq> f_id field) (selectedFieldIds st)
                else selectedFieldIds st @ [f_id field])
             else
               (if \<not> isSelected then [f_id field] else selectedFieldIds st));
          fieldsToDrag = filter (\<lambda>f. f_id f \<in> set nextSelection) (fields_st st)
      in st\<lparr> selectedFieldIds := nextSelection,
             dragState := Some \<lparr> startX = clientX e, startY = clientY e,
                                 initialPositions = map snapshot fieldsToDrag,
                                 mainFieldId = f_id field \<rparr> \<rparr>)"

text \<open>
  The loop over \<^verbatim>\<open>fields\<close> in \<^verbatim>\<open>handleMouseMove\<close> (lines 716 to 725): the result is
  \<^verbatim>\<open>mainNewY\<close> and \<^verbatim>\<open>snapped\<close> at the end of the loop.
\<close>

fun snapScan ::
  "string list \<Rightarrow> number \<Rightarrow> number \<Rightarrow> number \<Rightarrow> Field list \<Rightarrow> number \<times> bool" where
  "snapScan sel page snapMarginYPct mainNewY [] = (mainNewY, False)"
| "snapScan sel page snapMarginYPct mainNewY (otherField # rest) =
     (if f_id otherField \<notin> set sel \<and> f_page otherField = page then
        (if \<bar>mainNewY - f_y otherField\<bar> \<le> snapMarginYPct then (f_y otherField, True)
         else snapScan sel page snapMarginYPct mainNewY rest)
      else snapScan sel page snapMarginYPct mainNewY rest)"

text \<open>
  The drag branch of \<^verbatim>\<open>handleMouseMove\<close> (lines 706 to 739): the \<^verbatim>\<open>updates\<close> and
  the new value of \<^verbatim>\<open>snapLineY\<close>. Reading \<^verbatim>\<open>mainFieldInitial.y\<close> throws when the
  pressed field is not among the initial positions.
\<close>

definition dragMove ::
  "MouseEvent \<Rightarrow> DOMRect \<Rightarrow> DragState \<Rightarrow> Field list \<Rightarrow> string list \<Rightarrow> number
     \<Rightarrow> error + (FieldUpdate list \<times> number option)" where
  "dragMove e rect ds flds sel page =
     (let deltaX = ((clientX e - startX ds) / r_width rect) * 100;
          deltaY = ((clientY e - startY ds) / r_height rect) * 100
      in case find (\<lambda>p. ip_id p = mainFieldId ds) (initialPositions ds) of
           None \<Rightarrow> Inl TypeError
         | Some mainFieldInitial \<Rightarrow>
             (let snapMarginYPct = (5 / r_height rect) * 100;
                  (mainNewY, snapped) =
                     snapScan sel page snapMarginYPct (ip_y mainFieldInitial + deltaY) flds;
                  finalDeltaY = mainNewY - ip_y mainFieldInitial;
                  updates =
                    map (\<lambda>pos. \<lparr> u_id = ip_id pos,
                                  u_x = max 0 (min (100 - ip_width pos) (ip_x pos + deltaX)),
                                  u_y = max 0 (min (100 - ip_height pos)
                                                   (ip_y pos + finalDeltaY)) \<rparr>)
                        (initialPositions ds)
              in Inr (updates, if snapped then Some mainNewY else None)))"

text \<open>
  \<^verbatim>\<open>handleMouseMove\<close> (lines 701 to 774). \<open>rect\<close> is \<open>None\<close> when the overlay is not
  mounted.
\<close>

definition handleMouseMove ::
  "MouseEvent \<Rightarrow> DOMRect option \<Rightarrow> AppState \<Rightarrow> error + AppState" where
  "handleMouseMove e rect' st =
     (case rect' of
        None \<Rightarrow> Inr st
      | Some rect \<Rightarrow>
          (case dragState st of
             Some ds \<Rightarrow>
               (case dragMove e rect ds (fields_st st) (selectedFieldIds st) (currentPage st) of
                  Inl err \<Rightarrow> Inl err
                | Inr (updates, snap) \<Rightarrow>
                    Inr (onUpdateFields updates (st\<lparr> snapLineY := snap \<rparr>)))
           | None \<Rightarrow>
               (if isLasso st \<or> isDrawing st then
                  (let x = max 0 (min 100 (((clientX e - r_left rect) / r_width rect) * 100));
                       y = max 0 (min 100 (((clientY e - r_top rect) / r_height rect) * 100));
                       st1 = st\<lparr> currentPos := \<lparr> p_x = x, p_y = y \<rparr> \<rparr>
                   in if isLasso st then
                        (let lx = min (p_x (startPos st)) x;
                             ly = min (p_y (startPos st)) y;
                             lw = \<bar>x - p_x (startPos st)\<bar>;
                             lh = \<bar>y - p_y (startPos st)\<bar>;
                             newlySelected =
                               map f_id
                                 (filter (\<lambda>f. f_x f \<ge> lx \<and> f_y f \<ge> ly
                                               \<and> f_x f + f_width f \<le> lx + lw
                                               \<and> f_y f + f_height f \<le> ly + lh)
                                    (filter (\<lambda>f. f_page f = currentPage st) (fields_st st)))
                         in Inr (st1\<lparr> selectedFieldIds := newlySelected \<rparr>))
                      else Inr st1)
                else Inr st)))"

text \<open>Decimal digits of a number, for \<^verbatim>\<open>`var_${fields.length + 1}`\<close>.\<close>

fun decimal :: "nat \<Rightarrow> string" where
  "decimal n =
     (if n < 10 then [char_of (48 + n)]
      else decimal (n div 10) @ [char_of (48 + n mod 10)])"

declare decimal.simps [simp del]

text \<open>\<^verbatim>\<open>handleMouseUp\<close> (lines 776 to 810), also the handler of \<^verbatim>\<open>mouseleave\<close>.\<close>

definition handleMouseUp :: "(nat \<Rightarrow> string) \<Rightarrow> AppState \<Rightarrow> AppState" where
  "handleMouseUp ids st =
     (if dragState st \<noteq> None then st\<lparr> dragState := None, snapLineY := None \<rparr>
      else if isLasso st then st\<lparr> isLasso := False \<rparr>
      else if isDrawing st then
        (let x = min (p_x (startPos st)) (p_x (currentPos st));
             y = min (p_y (startPos st)) (p_y (currentPos st));
             width = \<bar>p_x (currentPos st) - p_x (startPos st)\<bar>;
             height = \<bar>p_y (currentPos st) - p_y (startPos st)\<bar>;
             st1 = st\<lparr> isDrawing := False \<rparr>
         in if width > 0.5 \<and> height > 0.5 then
              onAddField \<lparr> f_id = ids (generated st), f_page = currentPage st,
                           f_x = x, f_y = y, f_width = width, f_height = height,
                           f_variableName = ''var_'' @ decimal (length (fields_st st) + 1) \<rparr>
                         (st1\<lparr> generated := Suc (generated st) \<rparr>)
            else st1)
      else st)"

text \<open>
  The lasso rectangle as the overlay draws it (lines 842 to 845): left, top, width and
  height, in percent.
\<close>

definition lassoX :: "AppState \<Rightarrow> number" where
  "lassoX st = min (p_x (startPos st)) (p_x (currentPos st))"

definition lassoY :: "AppState \<Rightarrow> number" where
  "lassoY st = min (p_y (startPos st)) (p_y (currentPos st))"

definition lassoWidth :: "AppState \<Rightarrow> number" where
  "lassoWidth st = \<bar>p_x (currentPos st) - p_x (startPos st)\<bar>"

definition lassoHeight :: "AppState \<Rightarrow> number" where
  "lassoHeight st = \<bar>p_y (currentPos st) - p_y (startPos st)\<bar>"


subsection \<open>Sample inputs\<close>

text \<open>A sequence of generated ids, and a parser that reads every text as \<open>v\<close>.\<close>

definition sample_ids :: "nat \<Rightarrow> string" where
  "sample_ids k = ''gen'' @ replicate k (CHR ''x'')"

definition parse_as :: "jsval \<Rightarrow> string \<Rightarrow> jsval option" where
  "parse_as v text = Some v"

text \<open>A parser that refuses every text.\<close>

definition parse_fails :: "string \<Rightarrow> jsval option" where
  "parse_fails text = None"

text \<open>The element \<^verbatim>\<open>{"x":5,"y":5,"width":20,"height":10,"page":2,"variableName":"foo"}\<close>.\<close>

definition fooItem :: jsval where
  "fooItem =
     JObj [(''x'', JNum 5), (''y'', JNum 5), (''width'', JNum 20), (''height'', JNum 10),
           (''page'', JNum 2), (''variableName'', JStr ''foo'')]"

text \<open>The same element with \<^verbatim>\<open>"width":0\<close>.\<close>

definition zeroWidthItem :: jsval where
  "zeroWidthItem =
     JObj [(''x'', JNum 5), (''y'', JNum 5), (''width'', JNum 0), (''height'', JNum 10),
           (''page'', JNum 2), (''variableName'', JStr ''foo'')]"

text \<open>The element \<^verbatim>\<open>{"percentageCoordinates":{"x":1,"y":2,"width":3,"height":4}}\<close>.\<close>

definition bareBlockItem :: jsval where
  "bareBlockItem =
     JObj [(''percentageCoordinates'',
              JObj [(''x'', JNum 1), (''y'', JNum 2), (''width'', JNum 3),
                    (''height'', JNum 4)])]"

text \<open>A field with three decimals, and a state that holds it on a page of unknown size.\<close>

definition unroundedField :: Field where
  "unroundedField =
     \<lparr> f_id = ''a'', f_page = 1, f_x = 1234 / 1000, f_y = 20, f_width = 10, f_height = 5,
       f_variableName = ''v'' \<rparr>"

definition unmappedState :: AppState where
  "unmappedState =
     \<lparr> fields_st = [unroundedField], selectedFieldIds = [], currentPage = 1,
       pageDimensions = [],
       isDrawing = False, isLasso = False,
       startPos = \<lparr> p_x = 0, p_y = 0 \<rparr>, currentPos = \<lparr> p_x = 0, p_y = 0 \<rparr>,
       dragState = None, snapLineY = None, alerts = [], generated = 0 \<rparr>"

text \<open>The same state once the page is known to be 600 by 800 units.\<close>

definition mappedState :: AppState where
  "mappedState =
     \<lparr> fields_st = [unroundedField], selectedFieldIds = [], currentPage = 1,
       pageDimensions = [(1, \<lparr> dim_width = 600, dim_height = 800 \<rparr>)],
       isDrawing = False, isLasso = False,
       startPos = \<lparr> p_x = 0, p_y = 0 \<rparr>, currentPos = \<lparr> p_x = 0, p_y = 0 \<rparr>,
       dragState = None, snapLineY = None, alerts = [], generated = 0 \<rparr>"

text \<open>A state that holds the fields \<open>flds\<close> with the selection \<open>sel\<close>, on page 1.\<close>

definition storeState :: "Field list \<Rightarrow> string list \<Rightarrow> AppState" where
  "storeState flds sel =
     \<lparr> fields_st = flds, selectedFieldIds = sel, currentPage = 1,
       pageDimensions = [(1, \<lparr> dim_width = 600, dim_height = 800 \<rparr>)],
       isDrawing = False, isLasso = False,
       startPos = \<lparr> p_x = 0, p_y = 0 \<rparr>, currentPos = \<lparr> p_x = 0, p_y = 0 \<rparr>,
       dragState = None, snapLineY = None, alerts = [], generated = 0 \<rparr>"

text \<open>The fields A (y = 10), B (y = 30) and C (y = 50).\<close>

definition fieldA :: Field where
  "fieldA = \<lparr> f_id = ''A'', f_page = 1, f_x = 10, f_y = 10, f_width = 20, f_height = 5,
              f_variableName = ''var_1'' \<rparr>"

definition fieldB :: Field where
  "fieldB = \<lparr> f_id = ''B'', f_page = 1, f_x = 40, f_y = 30, f_width = 20, f_height = 5,
              f_variableName = ''var_2'' \<rparr>"

definition fieldC :: Field where
  "fieldC = \<lparr> f_id = ''C'', f_page = 1, f_x = 70, f_y = 50, f_width = 20, f_height = 5,
              f_variableName = ''var_3'' \<rparr>"

text \<open>A pointer event at the pixel \<open>(px, py)\<close>, no modifier key held, on the overlay itself.\<close>

definition mouseAt :: "number \<Rightarrow> number \<Rightarrow> MouseEvent" where
  "mouseAt px py =
     \<lparr> clientX = px, clientY = py, shiftKey = False, ctrlKey = False, metaKey = False,
       targetIsOverlay = True \<rparr>"

text \<open>An overlay of 600 by 800 pixels at the origin of the viewport.\<close>

definition sampleRect :: DOMRect where
  "sampleRect = \<lparr> r_left = 0, r_top = 0, r_width = 600, r_height = 800 \<rparr>"

text \<open>A field on page 2.\<close>

definition fieldD :: Field where
  "fieldD = \<lparr> f_id = ''D'', f_page = 2, f_x = 5, f_y = 5, f_width = 10, f_height = 5,
              f_variableName = ''var_4'' \<rparr>"



text \<open>A pointer event at the pixel \<open>(px, py)\<close> with Ctrl held.\<close>

definition ctrlMouseAt :: "number \<Rightarrow> number \<Rightarrow> MouseEvent" where
  "ctrlMouseAt px py =
     \<lparr> clientX = px, clientY = py, shiftKey = False, ctrlKey = True, metaKey = False,
       targetIsOverlay = True \<rparr>"

subsection \<open>Notions of the properties\<close>




section \<open>Properties\<close>

subsection \<open>The codec\<close>

lemma toFixed2_near: "\<bar>toFixed2 v - v\<bar> \<le> 1 / 200"
proof (cases "v < 0")
  case True
  define k where "k = \<lfloor>(- v) * 100 + 1 / 2\<rfloor>"
  have "of_int k \<le> (- v) * 100 + 1 / 2" "(- v) * 100 + 1 / 2 < of_int k + 1"
    unfolding k_def by linarith+
  moreover have "toFixed2 v = - (of_int k / 100)"
    using True unfolding toFixed2_def k_def by (simp only: if_True)
  ultimately show ?thesis by linarith
next
  case False
  define k where "k = \<lfloor>v * 100 + 1 / 2\<rfloor>"
  have "of_int k \<le> v * 100 + 1 / 2" "v * 100 + 1 / 2 < of_int k + 1"
    unfolding k_def by linarith+
  moreover have "toFixed2 v = of_int k / 100"
    using False unfolding toFixed2_def k_def by (simp only: if_False)
  ultimately show ?thesis by linarith
qed

lemma toFixed2_hundredths: "\<exists>k::int. toFixed2 v = of_int k / 100"
proof (cases "v < 0")
  case True
  then have "toFixed2 v = of_int (- \<lfloor>(- v) * 100 + 1 / 2\<rfloor>) / 100"
    by (simp add: toFixed2_def)
  then show ?thesis by blast
next
  case False
  then have "toFixed2 v = of_int \<lfloor>v * 100 + 1 / 2\<rfloor> / 100"
    by (simp add: toFixed2_def)
  then show ?thesis by blast
qed

lemma importItem_exportField:
  assumes "f_id f \<noteq> []" "map_of pd (f_page f) \<noteq> None"
  shows "importItem ids n (exportField pd f) = (Inr (roundedField f), n)"
  using assms
  by (auto simp: importItem_def exportField_def Let_def or_generateId_def roundedField_def)

lemma importItems_exportField:
  assumes "\<forall>f\<in>set fs. f_id f \<noteq> []" "\<forall>f\<in>set fs. map_of pd (f_page f) \<noteq> None"
  shows "importItems ids n (map (exportField pd) fs) = (Inr (map roundedField fs), n)"
  using assms by (induction fs) (simp_all add: importItem_exportField)

lemma asField_roundedField: "asField (roundedField f) = Some (roundField f)"
  by (simp add: roundedField_def roundField_def)

lemma those_asField_rounded:
  "those (map (asField \<circ> roundedField) fs) = Some (map roundField fs)"
  by (induction fs) (simp_all add: asField_roundedField del: asField.simps)

text \<open>
  C1 (as amended). When every field has a non-empty id and the size of every field's page
  is known, importing the exported file replaces the store by the same fields in the same
  order, with \<^verbatim>\<open>id\<close>, \<^verbatim>\<open>variableName\<close> and \<^verbatim>\<open>page\<close> unchanged and each of
  \<^verbatim>\<open>x\<close>, \<^verbatim>\<open>y\<close>, \<^verbatim>\<open>width\<close>, \<^verbatim>\<open>height\<close> rounded to two decimals: a multiple of
  1/100 at most 1/200 away. The file is read back as the array that was written
  (\<^verbatim>\<open>JSON.parse\<close> undoes \<^verbatim>\<open>JSON.stringify\<close>).
\<close>

theorem export_import_roundtrip:
  assumes ids: "\<forall>f\<in>set (fields_st st). f_id f \<noteq> []"
    and dims: "\<forall>f\<in>set (fields_st st). map_of (pageDimensions st) (f_page f) \<noteq> None"
    and parsed: "JSON_parse fileText = Some (handleExport (pageDimensions st) (fields_st st))"
  shows "handleJsonUpload JSON_parse ids (Some fileText) st =
           Some (st\<lparr> fields_st := map roundField (fields_st st),
                     alerts := alerts st @ [ImportSucceeded (length (fields_st st))] \<rparr>)
         \<and> (\<forall>v. \<bar>toFixed2 v - v\<bar> \<le> 1 / 200 \<and> (\<exists>k::int. toFixed2 v = of_int k / 100))"
proof -
  have "parseFields JSON_parse ids (generated st) fileText =
          (Inr (map roundedField (fields_st st)), generated st)"
    using parsed importItems_exportField [OF ids dims]
    by (simp add: parseFields_def handleExport_def)
  then have "handleJsonUpload JSON_parse ids (Some fileText) st =
           Some (st\<lparr> fields_st := map roundField (fields_st st),
                     alerts := alerts st @ [ImportSucceeded (length (fields_st st))] \<rparr>)"
    by (simp add: handleJsonUpload_def those_asField_rounded del: asField.simps)
  then show ?thesis
    using toFixed2_near toFixed2_hundredths by blast
qed

theorem export_import_roundtrip_witness:
  "handleJsonUpload (parse_as (handleExport (pageDimensions mappedState) (fields_st mappedState)))
       sample_ids (Some ''pdf-fields.json'') mappedState =
     Some (mappedState\<lparr> fields_st := [unroundedField\<lparr> f_x := 123 / 100 \<rparr>],
                        alerts := [ImportSucceeded 1] \<rparr>)"
proof -
  have 1: "\<forall>f\<in>set (fields_st mappedState). f_id f \<noteq> []"
    by (simp add: mappedState_def unroundedField_def)
  have 2: "\<forall>f\<in>set (fields_st mappedState).
             map_of (pageDimensions mappedState) (f_page f) \<noteq> None"
    by (simp add: mappedState_def unroundedField_def)
  have 3: "parse_as (handleExport (pageDimensions mappedState) (fields_st mappedState))
             ''pdf-fields.json''
           = Some (handleExport (pageDimensions mappedState) (fields_st mappedState))"
    by (simp add: parse_as_def)
  have "roundField unroundedField = unroundedField\<lparr> f_x := 123 / 100 \<rparr>"
    by (simp add: roundField_def unroundedField_def toFixed2_def)
  then show ?thesis
    using export_import_roundtrip [where st = mappedState and ids = sample_ids
        and JSON_parse = "parse_as (handleExport (pageDimensions mappedState)
                                                  (fields_st mappedState))"
        and fileText = "''pdf-fields.json''", OF 1 2 3]
    by (simp add: mappedState_def)
qed

text \<open>
  C1 as stated fails on a page of unknown size: the field is exported as it is and comes
  back unrounded, \<open>x = 1.234\<close> staying \<open>1.234\<close> while its rounding is \<open>1.23\<close>.
\<close>

theorem export_import_unknown_page_counterexample:
  "map_option fields_st
     (handleJsonUpload (parse_as (handleExport (pageDimensions unmappedState)
                                               (fields_st unmappedState)))
        sample_ids (Some ''pdf-fields.json'') unmappedState)
     = Some [unroundedField]
   \<and> f_x unroundedField = 1234 / 1000
   \<and> toFixed2 (f_x unroundedField) = 123 / 100"
  by (simp add: handleJsonUpload_def parseFields_def parse_as_def handleExport_def
      exportField_def fieldObject_def importItem_def or_generateId_def or_generateName_def
      js_or_def unmappedState_def unroundedField_def toFixed2_def)

text \<open>
  C8. When the file's text does not parse, or parses to a value that is not an array,
  \<^verbatim>\<open>handleJsonUpload\<close> alerts the failure and changes nothing else: the fields of the
  store are the ones it held.
\<close>

theorem handleJsonUpload_malformed:
  assumes "JSON_parse fileText = None
           \<or> (\<exists>v. JSON_parse fileText = Some v \<and> (\<forall>items. v \<noteq> JArr items))"
  shows "handleJsonUpload JSON_parse ids (Some fileText) st =
           Some (st\<lparr> alerts := alerts st @ [ImportFailed] \<rparr>)
         \<and> map_option fields_st (handleJsonUpload JSON_parse ids (Some fileText) st) =
             Some (fields_st st)"
proof -
  from assms have "parseFields JSON_parse ids (generated st) fileText = (Inl SyntaxError, generated st)
      \<or> parseFields JSON_parse ids (generated st) fileText = (Inl NotAnArray, generated st)"
    by (auto simp: parseFields_def split: jsval.splits)
  then show ?thesis
    by (auto simp: handleJsonUpload_def)
qed

theorem handleJsonUpload_malformed_witness:
  "handleJsonUpload parse_fails sample_ids (Some ''{oops'') mappedState =
     Some (mappedState\<lparr> alerts := [ImportFailed] \<rparr>)
   \<and> handleJsonUpload (parse_as fooItem) sample_ids (Some ''{...}'') mappedState =
     Some (mappedState\<lparr> alerts := [ImportFailed] \<rparr>)"
proof -
  have 1: "parse_fails ''{oops'' = None
           \<or> (\<exists>v. parse_fails ''{oops'' = Some v \<and> (\<forall>items. v \<noteq> JArr items))"
    by (simp add: parse_fails_def)
  have 2: "parse_as fooItem ''{...}'' = None
           \<or> (\<exists>v. parse_as fooItem ''{...}'' = Some v \<and> (\<forall>items. v \<noteq> JArr items))"
    by (simp add: parse_as_def fooItem_def)
  show ?thesis
    using handleJsonUpload_malformed [where ids = sample_ids and st = mappedState
        and JSON_parse = parse_fails and fileText = "''{oops''", OF 1]
      handleJsonUpload_malformed [where ids = sample_ids and st = mappedState
        and JSON_parse = "parse_as fooItem" and fileText = "''{...}''", OF 2]
    by (simp add: mappedState_def)
qed

text \<open>
  C9 (as amended). An element other than \<^verbatim>\<open>null\<close> whose \<^verbatim>\<open>percentageCoordinates\<close>
  is absent or falsy gives a field that takes each of the element's top-level \<^verbatim>\<open>page\<close>,
  \<^verbatim>\<open>variableName\<close>, \<^verbatim>\<open>x\<close>, \<^verbatim>\<open>y\<close>, \<^verbatim>\<open>width\<close>, \<^verbatim>\<open>height\<close> when it is truthy,
  and the default (page 1, a generated name, 0, 0, 10, 5) when it is missing or falsy
  (\<^verbatim>\<open>0\<close>, \<^verbatim>\<open>""\<close>, \<^verbatim>\<open>null\<close>, \<^verbatim>\<open>false\<close>); a missing or falsy \<^verbatim>\<open>id\<close> is generated.
\<close>

theorem importItem_top_level:
  assumes "item \<noteq> JNull" and "item \<noteq> JUndefined"
    and "\<not> truthy (get_prop item ''percentageCoordinates'')"
  shows "importItem ids n item =
     (Inr \<lparr> i_id = (if truthy (get_prop item ''id'') then get_prop item ''id''
                     else JStr (ids n)),
             i_page = (if truthy (get_prop item ''page'') then get_prop item ''page''
                       else JNum 1),
             i_variableName =
               (if truthy (get_prop item ''variableName'') then get_prop item ''variableName''
                else JStr (''var_'' @ take 4
                            (ids (if truthy (get_prop item ''id'') then n else Suc n)))),
             i_x = (if truthy (get_prop item ''x'') then get_prop item ''x'' else JNum 0),
             i_y = (if truthy (get_prop item ''y'') then get_prop item ''y'' else JNum 0),
             i_width = (if truthy (get_prop item ''width'') then get_prop item ''width''
                        else JNum 10),
             i_height = (if truthy (get_prop item ''height'') then get_prop item ''height''
                         else JNum 5) \<rparr>,
      (if truthy (get_prop item ''id'') then 0 else 1)
        + (if truthy (get_prop item ''variableName'') then 0 else 1) + n)"
  using assms
  by (simp add: importItem_def or_generateId_def or_generateName_def js_or_def)

theorem importItem_top_level_witness:
  "fooItem \<noteq> JNull \<and> fooItem \<noteq> JUndefined
   \<and> \<not> truthy (get_prop fooItem ''percentageCoordinates'')
   \<and> importItem sample_ids 0 fooItem =
       (Inr \<lparr> i_id = JStr ''gen'', i_page = JNum 2, i_variableName = JStr ''foo'',
               i_x = JNum 5, i_y = JNum 5, i_width = JNum 20, i_height = JNum 10 \<rparr>, 1)
   \<and> parseFields (parse_as (JArr [fooItem])) sample_ids 0 ''[...]'' =
       (Inr [\<lparr> i_id = JStr ''gen'', i_page = JNum 2, i_variableName = JStr ''foo'',
               i_x = JNum 5, i_y = JNum 5, i_width = JNum 20, i_height = JNum 10 \<rparr>], 1)"
proof -
  have a: "fooItem \<noteq> JNull" "fooItem \<noteq> JUndefined"
    "\<not> truthy (get_prop fooItem ''percentageCoordinates'')"
    by (simp_all add: fooItem_def)
  have b: "importItem sample_ids 0 fooItem =
       (Inr \<lparr> i_id = JStr ''gen'', i_page = JNum 2, i_variableName = JStr ''foo'',
               i_x = JNum 5, i_y = JNum 5, i_width = JNum 20, i_height = JNum 10 \<rparr>, 1)"
    using importItem_top_level [OF a, of sample_ids 0]
    by (simp add: fooItem_def sample_ids_def)
  show ?thesis
    using a b by (simp add: parseFields_def parse_as_def)
qed

text \<open>
  C9 as stated fails for a width that is present and 0: it is not kept, the field gets
  the default 10. (And the element \<^verbatim>\<open>null\<close> gives no field: reading its
  \<^verbatim>\<open>percentageCoordinates\<close> throws.)
\<close>

theorem importItem_zero_width_counterexample:
  "get_prop zeroWidthItem ''percentageCoordinates'' = JUndefined
   \<and> get_prop zeroWidthItem ''width'' = JNum 0
   \<and> importItem sample_ids 0 zeroWidthItem =
       (Inr \<lparr> i_id = JStr ''gen'', i_page = JNum 2, i_variableName = JStr ''foo'',
               i_x = JNum 5, i_y = JNum 5, i_width = JNum 10, i_height = JNum 10 \<rparr>, 1)
   \<and> importItem sample_ids 0 JNull = (Inl TypeError, 0)"
  by (simp add: zeroWidthItem_def importItem_def or_generateId_def or_generateName_def
      js_or_def sample_ids_def)

text \<open>
  C10. An element with a \<^verbatim>\<open>percentageCoordinates\<close> block gives a field whose
  \<^verbatim>\<open>page\<close> and \<^verbatim>\<open>variableName\<close> are the element's own, with no default
  (\<^verbatim>\<open>undefined\<close> when the element has none), whose coordinates are read from the
  block, and whose \<^verbatim>\<open>id\<close> is the element's, or a generated one when that is missing.
\<close>

theorem importItem_percentageCoordinates:
  assumes "truthy (get_prop item ''percentageCoordinates'')"
  shows "importItem ids n item =
           (Inr \<lparr> i_id = (if truthy (get_prop item ''id'') then get_prop item ''id''
                            else JStr (ids n)),
                   i_page = get_prop item ''page'',
                   i_variableName = get_prop item ''variableName'',
                   i_x = get_prop (get_prop item ''percentageCoordinates'') ''x'',
                   i_y = get_prop (get_prop item ''percentageCoordinates'') ''y'',
                   i_width = get_prop (get_prop item ''percentageCoordinates'') ''width'',
                   i_height = get_prop (get_prop item ''percentageCoordinates'') ''height'' \<rparr>,
            if truthy (get_prop item ''id'') then n else Suc n)"
proof -
  from assms have "item \<noteq> JNull" "item \<noteq> JUndefined"
    by auto
  with assms show ?thesis
    by (simp add: importItem_def or_generateId_def Let_def)
qed

theorem importItem_percentageCoordinates_witness:
  "truthy (get_prop bareBlockItem ''percentageCoordinates'')
   \<and> importItem sample_ids 0 bareBlockItem =
       (Inr \<lparr> i_id = JStr ''gen'', i_page = JUndefined, i_variableName = JUndefined,
               i_x = JNum 1, i_y = JNum 2, i_width = JNum 3, i_height = JNum 4 \<rparr>, 1)"
  using importItem_percentageCoordinates [of bareBlockItem sample_ids 0]
  by (simp add: bareBlockItem_def sample_ids_def)

subsection \<open>The field store\<close>

lemma applyUpdates_absent:
  assumes "\<forall>u\<in>set updates. u_id u \<notin> f_id ` set flds"
  shows "applyUpdates updates flds = flds"
proof -
  have "find (\<lambda>u. u_id u = f_id f) updates = None" if "f \<in> set flds" for f
    using assms that by (auto simp: find_None_iff)
  then show ?thesis
    by (simp add: applyUpdates_def updateField_def map_idI)
qed

lemma rename_absent:
  assumes "fid \<notin> f_id ` set flds"
  shows "map (\<lambda>f. if f_id f = fid then f\<lparr> f_variableName := name \<rparr> else f) flds = flds"
  using assms by (intro map_idI) auto

text \<open>
  C5 (as amended). Both delete handlers drop the deleted ids from the selection in the
  same step: the id deleted by the single delete is neither selected nor in the store
  afterwards, the bulk delete empties the selection and removes every selected id from
  the store; a single delete keeps the selection within the store when it was so before;
  and a later rename or move that names only deleted ids leaves the state as it is.
\<close>

theorem delete_prunes_selection:
  "fid \<notin> set (selectedFieldIds (deleteField fid st))
   \<and> fid \<notin> f_id ` set (fields_st (deleteField fid st))
   \<and> selectedFieldIds (deleteSelected st) = []
   \<and> (\<forall>i\<in>set (selectedFieldIds st). i \<notin> f_id ` set (fields_st (deleteSelected st)))
   \<and> (set (selectedFieldIds st) \<subseteq> f_id ` set (fields_st st) \<longrightarrow>
        set (selectedFieldIds (deleteField fid st))
          \<subseteq> f_id ` set (fields_st (deleteField fid st)))
   \<and> renameField fid name (deleteField fid st) = deleteField fid st
   \<and> (\<forall>i\<in>set (selectedFieldIds st).
         renameField i name (deleteSelected st) = deleteSelected st)
   \<and> (\<forall>updates. (\<forall>u\<in>set updates. u_id u = fid) \<longrightarrow>
         onUpdateFields updates (deleteField fid st) = deleteField fid st)
   \<and> (\<forall>updates. (\<forall>u\<in>set updates. u_id u \<in> set (selectedFieldIds st)) \<longrightarrow>
         onUpdateFields updates (deleteSelected st) = deleteSelected st)"
proof -
  have gone: "fid \<notin> f_id ` set (fields_st (deleteField fid st))"
    by (auto simp: deleteField_def)
  have gone': "i \<notin> f_id ` set (fields_st (deleteSelected st))"
    if "i \<in> set (selectedFieldIds st)" for i
    using that by (auto simp: deleteSelected_def)
  have sel: "fid \<notin> set (selectedFieldIds (deleteField fid st))"
    by (simp add: deleteField_def)
  have inv: "set (selectedFieldIds (deleteField fid st))
          \<subseteq> f_id ` set (fields_st (deleteField fid st))"
    if "set (selectedFieldIds st) \<subseteq> f_id ` set (fields_st st)"
    using that by (auto simp: deleteField_def)
  have ren: "renameField fid name (deleteField fid st) = deleteField fid st"
    using rename_absent [OF gone] by (simp add: renameField_def)
  have ren': "renameField i name (deleteSelected st) = deleteSelected st"
    if "i \<in> set (selectedFieldIds st)" for i
    using rename_absent [OF gone' [OF that]] by (simp add: renameField_def)
  have mv: "onUpdateFields updates (deleteField fid st) = deleteField fid st"
    if "\<forall>u\<in>set updates. u_id u = fid" for updates
  proof -
    from that gone have "\<forall>u\<in>set updates. u_id u \<notin> f_id ` set (fields_st (deleteField fid st))"
      by metis
    then show ?thesis
      by (simp add: onUpdateFields_def applyUpdates_absent)
  qed
  have mv': "onUpdateFields updates (deleteSelected st) = deleteSelected st"
    if "\<forall>u\<in>set updates. u_id u \<in> set (selectedFieldIds st)" for updates
  proof -
    from that gone' have "\<forall>u\<in>set updates. u_id u \<notin> f_id ` set (fields_st (deleteSelected st))"
      by blast
    then show ?thesis
      by (simp add: onUpdateFields_def applyUpdates_absent)
  qed
  have empty: "selectedFieldIds (deleteSelected st) = []"
    by (simp add: deleteSelected_def)
  show ?thesis
    using gone gone' sel inv ren ren' mv mv' empty by blast
qed

theorem delete_prunes_selection_witness:
  "deleteField ''A'' (storeState [fieldA, fieldB, fieldC] [''B'', ''A''])
     = storeState [fieldB, fieldC] [''B'']
   \<and> deleteSelected (storeState [fieldA, fieldB, fieldC] [''B'', ''A''])
     = storeState [fieldC] []
   \<and> renameField ''A'' ''x'' (storeState [fieldB, fieldC] [''B''])
     = storeState [fieldB, fieldC] [''B'']
   \<and> onUpdateFields [\<lparr> u_id = ''A'', u_x = 0, u_y = 0 \<rparr>] (storeState [fieldB, fieldC] [''B''])
     = storeState [fieldB, fieldC] [''B'']
   \<and> onUpdateFields [\<lparr> u_id = ''A'', u_x = 0, u_y = 0 \<rparr>, \<lparr> u_id = ''B'', u_x = 1, u_y = 1 \<rparr>]
        (storeState [fieldC] [])
     = storeState [fieldC] []
   \<and> set [''B''] \<subseteq> f_id ` set [fieldB, fieldC]"
proof -
  let ?st = "storeState [fieldA, fieldB, fieldC] [''B'', ''A'']"
  have d1: "deleteField ''A'' ?st = storeState [fieldB, fieldC] [''B'']"
    by (simp add: deleteField_def storeState_def fieldA_def fieldB_def fieldC_def)
  have d2: "deleteSelected ?st = storeState [fieldC] []"
    by (simp add: deleteSelected_def storeState_def fieldA_def fieldB_def fieldC_def)
  have pre: "set (selectedFieldIds ?st) \<subseteq> f_id ` set (fields_st ?st)"
    by (simp add: storeState_def fieldA_def fieldB_def fieldC_def)
  have u1: "\<forall>u\<in>set [\<lparr> u_id = ''A'', u_x = 0, u_y = 0 \<rparr>]. u_id u = ''A''"
    by simp
  have u2: "\<forall>u\<in>set [\<lparr> u_id = ''A'', u_x = 0, u_y = 0 \<rparr>, \<lparr> u_id = ''B'', u_x = 1, u_y = 1 \<rparr>].
              u_id u \<in> set (selectedFieldIds ?st)"
    by (simp add: storeState_def)
  note t = delete_prunes_selection [of "''A''" ?st "''x''"]
  from t have "renameField ''A'' ''x'' (deleteField ''A'' ?st) = deleteField ''A'' ?st"
    by blast
  moreover from t u1
  have "onUpdateFields [\<lparr> u_id = ''A'', u_x = 0, u_y = 0 \<rparr>] (deleteField ''A'' ?st)
          = deleteField ''A'' ?st"
    by blast
  moreover from t u2
  have "onUpdateFields [\<lparr> u_id = ''A'', u_x = 0, u_y = 0 \<rparr>, \<lparr> u_id = ''B'', u_x = 1, u_y = 1 \<rparr>]
          (deleteSelected ?st) = deleteSelected ?st"
    by blast
  moreover from t pre
  have "set (selectedFieldIds (deleteField ''A'' ?st))
          \<subseteq> f_id ` set (fields_st (deleteField ''A'' ?st))"
    by blast
  ultimately show ?thesis
    unfolding d1 d2 by (simp add: d1 d2 storeState_def)
qed

text \<open>
  C5 as stated fails after an import, which replaces the fields and keeps the selection:
  with A selected, importing B and C and then deleting B leaves A selected, and A is not
  in the store.
\<close>

theorem delete_after_import_counterexample:
  "map_option (selectedFieldIds \<circ> deleteField ''B'')
     (handleJsonUpload (parse_as (JArr [fieldObject fieldB, fieldObject fieldC])) sample_ids
        (Some ''[...]'') (storeState [fieldA] [''A'']))
     = Some [''A'']
   \<and> map_option (fields_st \<circ> deleteField ''B'')
     (handleJsonUpload (parse_as (JArr [fieldObject fieldB, fieldObject fieldC])) sample_ids
        (Some ''[...]'') (storeState [fieldA] [''A'']))
     = Some [fieldC]
   \<and> ''A'' \<notin> f_id ` set [fieldC]"
  by (simp add: handleJsonUpload_def parseFields_def parse_as_def fieldObject_def
      importItem_def or_generateId_def or_generateName_def js_or_def deleteField_def
      storeState_def fieldA_def fieldB_def fieldC_def)

lemma filter_first:
  "i < length xs \<Longrightarrow> P (xs ! i) \<Longrightarrow> \<forall>j<i. \<not> P (xs ! j)
     \<Longrightarrow> \<exists>rest. filter P xs = xs ! i # rest"
proof (induction xs arbitrary: i)
  case Nil
  then show ?case by simp
next
  case (Cons x xs)
  show ?case
  proof (cases i)
    case 0
    with Cons.prems show ?thesis by simp
  next
    case (Suc k)
    with Cons.prems have "\<not> P x" by auto
    moreover from Suc Cons.prems have "k < length xs" "P (xs ! k)" "\<forall>j<k. \<not> P (xs ! j)"
      by auto
    ultimately show ?thesis
      using Cons.IH [of k] Suc by simp
  qed
qed

lemma syncY_fields_cong:
  assumes "fields_st (st'::AppState) = fields_st (st::AppState)"
    and "set (selectedFieldIds st') = set (selectedFieldIds st)"
    and "2 \<le> length (selectedFieldIds st)" and "2 \<le> length (selectedFieldIds st')"
  shows "map_sum id fields_st (syncY st') = map_sum id fields_st (syncY st)"
  using assms by (simp add: syncY_def Let_def split: list.splits)

text \<open>
  C6. \<^verbatim>\<open>syncY\<close> changes nothing when fewer than two ids are selected. With two or
  more, every selected field takes the \<^verbatim>\<open>y\<close> of the first field of the store, in the
  store's order, that is selected; the order of the ids in the selection plays no part:
  two selections of two or more ids with the same members give the same fields. (When
  no field of the store is selected, \<^verbatim>\<open>syncY\<close> throws and sets nothing.)
\<close>

theorem syncY_first_in_store_order:
  "(length (selectedFieldIds st) < 2 \<longrightarrow> syncY st = Inr st)
   \<and> (2 \<le> length (selectedFieldIds st) \<longrightarrow>
        (\<forall>i<length (fields_st st).
            f_id (fields_st st ! i) \<in> set (selectedFieldIds st)
            \<and> (\<forall>j<i. f_id (fields_st st ! j) \<notin> set (selectedFieldIds st))
          \<longrightarrow> syncY st =
                Inr (st\<lparr> fields_st :=
                       map (\<lambda>f. if f_id f \<in> set (selectedFieldIds st)
                                 then f\<lparr> f_y := f_y (fields_st st ! i) \<rparr> else f)
                           (fields_st st) \<rparr>)))
   \<and> (\<forall>st'::AppState. fields_st st' = fields_st st
              \<and> set (selectedFieldIds st') = set (selectedFieldIds st)
              \<and> 2 \<le> length (selectedFieldIds st) \<and> 2 \<le> length (selectedFieldIds st')
          \<longrightarrow> map_sum id fields_st (syncY st') = map_sum id fields_st (syncY st))
   \<and> (2 \<le> length (selectedFieldIds st)
        \<and> (\<forall>f\<in>set (fields_st st). f_id f \<notin> set (selectedFieldIds st))
      \<longrightarrow> syncY st = Inl TypeError)"
proof (intro conjI impI allI)
  assume "length (selectedFieldIds st) < 2"
  then show "syncY st = Inr st" by (simp add: syncY_def)
next
  fix i
  assume two: "2 \<le> length (selectedFieldIds st)"
    and i: "i < length (fields_st st)"
    and first: "f_id (fields_st st ! i) \<in> set (selectedFieldIds st)
                \<and> (\<forall>j<i. f_id (fields_st st ! j) \<notin> set (selectedFieldIds st))"
  obtain rest where
    "filter (\<lambda>f. f_id f \<in> set (selectedFieldIds st)) (fields_st st) = fields_st st ! i # rest"
    using filter_first [of i "fields_st st" "\<lambda>f. f_id f \<in> set (selectedFieldIds st)"] i first
    by blast
  with two show "syncY st =
                Inr (st\<lparr> fields_st :=
                       map (\<lambda>f. if f_id f \<in> set (selectedFieldIds st)
                                 then f\<lparr> f_y := f_y (fields_st st ! i) \<rparr> else f)
                           (fields_st st) \<rparr>)"
    by (simp add: syncY_def)
next
  fix st' :: AppState
  assume "fields_st st' = fields_st st
              \<and> set (selectedFieldIds st') = set (selectedFieldIds st)
              \<and> 2 \<le> length (selectedFieldIds st) \<and> 2 \<le> length (selectedFieldIds st')"
  then show "map_sum id fields_st (syncY st') = map_sum id fields_st (syncY st)"
    using syncY_fields_cong by blast
next
  assume "2 \<le> length (selectedFieldIds st)
        \<and> (\<forall>f\<in>set (fields_st st). f_id f \<notin> set (selectedFieldIds st))"
  then show "syncY st = Inl TypeError"
    by (simp add: syncY_def)
qed

theorem syncY_first_in_store_order_witness:
  "syncY (storeState [fieldA, fieldB, fieldC] [''C'', ''A'', ''B'']) =
     Inr (storeState [fieldA, fieldB\<lparr> f_y := 10 \<rparr>, fieldC\<lparr> f_y := 10 \<rparr>] [''C'', ''A'', ''B''])
   \<and> syncY (storeState [fieldA, fieldB, fieldC] [''B'', ''C'', ''A'']) =
     Inr (storeState [fieldA, fieldB\<lparr> f_y := 10 \<rparr>, fieldC\<lparr> f_y := 10 \<rparr>] [''B'', ''C'', ''A''])
   \<and> syncY (storeState [fieldA, fieldB, fieldC] [''A'']) =
     Inr (storeState [fieldA, fieldB, fieldC] [''A''])"
proof -
  let ?s1 = "storeState [fieldA, fieldB, fieldC] [''C'', ''A'', ''B'']"
  let ?s2 = "storeState [fieldA, fieldB, fieldC] [''B'', ''C'', ''A'']"
  let ?s3 = "storeState [fieldA, fieldB, fieldC] [''A'']"
  have a: "2 \<le> length (selectedFieldIds ?s1)" "0 < length (fields_st ?s1)"
    "f_id (fields_st ?s1 ! 0) \<in> set (selectedFieldIds ?s1)
       \<and> (\<forall>j<0. f_id (fields_st ?s1 ! j) \<notin> set (selectedFieldIds ?s1))"
    by (simp_all add: storeState_def fieldA_def)
  have b: "2 \<le> length (selectedFieldIds ?s2)" "0 < length (fields_st ?s2)"
    "f_id (fields_st ?s2 ! 0) \<in> set (selectedFieldIds ?s2)
       \<and> (\<forall>j<0. f_id (fields_st ?s2 ! j) \<notin> set (selectedFieldIds ?s2))"
    by (simp_all add: storeState_def fieldA_def)
  have c: "length (selectedFieldIds ?s3) < 2"
    by (simp add: storeState_def)
  from a syncY_first_in_store_order [of ?s1]
  have 1: "syncY ?s1 = Inr (?s1\<lparr> fields_st :=
                       map (\<lambda>f. if f_id f \<in> set (selectedFieldIds ?s1)
                                 then f\<lparr> f_y := f_y (fields_st ?s1 ! 0) \<rparr> else f)
                           (fields_st ?s1) \<rparr>)"
    by blast
  from b syncY_first_in_store_order [of ?s2]
  have 2: "syncY ?s2 = Inr (?s2\<lparr> fields_st :=
                       map (\<lambda>f. if f_id f \<in> set (selectedFieldIds ?s2)
                                 then f\<lparr> f_y := f_y (fields_st ?s2 ! 0) \<rparr> else f)
                           (fields_st ?s2) \<rparr>)"
    by blast
  from c syncY_first_in_store_order [of ?s3]
  have 3: "syncY ?s3 = Inr ?s3"
    by blast
  show ?thesis
    unfolding 1 2 3
    by (simp add: storeState_def fieldA_def fieldB_def fieldC_def)
qed

subsection \<open>The pointer handlers\<close>















text \<open>
  C3. While the lasso is on and no drag is, a pointer move sets the current position to
  the pointer's, clamped to the overlay, and the selection to the ids, in the store's
  order, of the fields of the current page whose rectangle lies within the lasso
  rectangle as it is then drawn.
\<close>

theorem lasso_move_selects_enclosed:
  assumes "isLasso st" and "dragState st = None"
    and "0 < r_width rect" and "0 < r_height rect"
  shows "\<exists>st'. handleMouseMove e (Some rect) st = Inr st'
           \<and> fields_st st' = fields_st st
           \<and> currentPage st' = currentPage st
           \<and> startPos st' = startPos st
           \<and> currentPos st' =
               \<lparr> p_x = max 0 (min 100 (((clientX e - r_left rect) / r_width rect) * 100)),
                 p_y = max 0 (min 100 (((clientY e - r_top rect) / r_height rect) * 100)) \<rparr>
           \<and> selectedFieldIds st' =
               map f_id
                 (filter (\<lambda>f. f_page f = currentPage st'
                               \<and> f_x f \<ge> lassoX st' \<and> f_y f \<ge> lassoY st'
                               \<and> f_x f + f_width f \<le> lassoX st' + lassoWidth st'
                               \<and> f_y f + f_height f \<le> lassoY st' + lassoHeight st')
                    (fields_st st'))"
proof -
  define x where "x = max 0 (min 100 (((clientX e - r_left rect) / r_width rect) * 100))"
  define y where "y = max 0 (min 100 (((clientY e - r_top rect) / r_height rect) * 100))"
  define inside where
    "inside = (\<lambda>f::Field. f_x f \<ge> min (p_x (startPos st)) x
                  \<and> f_y f \<ge> min (p_y (startPos st)) y
                  \<and> f_x f + f_width f \<le> min (p_x (startPos st)) x + \<bar>x - p_x (startPos st)\<bar>
                  \<and> f_y f + f_height f \<le> min (p_y (startPos st)) y + \<bar>y - p_y (startPos st)\<bar>)"
  define st' where
    "st' = st\<lparr> currentPos := \<lparr> p_x = x, p_y = y \<rparr>,
              selectedFieldIds :=
                map f_id (filter inside
                            (filter (\<lambda>f. f_page f = currentPage st) (fields_st st))) \<rparr>"
  have run: "handleMouseMove e (Some rect) st = Inr st'"
    unfolding handleMouseMove_def Let_def st'_def inside_def x_def y_def
    using assms(1,2) by (simp only: option.case if_True simp_thms)
  have rest: "fields_st st' = fields_st st" "currentPage st' = currentPage st"
    "startPos st' = startPos st" "currentPos st' = \<lparr> p_x = x, p_y = y \<rparr>"
    by (simp_all add: st'_def)
  have box: "lassoX st' = min (p_x (startPos st)) x" "lassoY st' = min (p_y (startPos st)) y"
    "lassoWidth st' = \<bar>x - p_x (startPos st)\<bar>" "lassoHeight st' = \<bar>y - p_y (startPos st)\<bar>"
    by (simp_all add: st'_def lassoX_def lassoY_def lassoWidth_def lassoHeight_def)
  have "selectedFieldIds st' =
          map f_id (filter inside (filter (\<lambda>f. f_page f = currentPage st) (fields_st st)))"
    by (simp add: st'_def)
  then have sel: "selectedFieldIds st' =
               map f_id
                 (filter (\<lambda>f. f_page f = currentPage st'
                               \<and> f_x f \<ge> lassoX st' \<and> f_y f \<ge> lassoY st'
                               \<and> f_x f + f_width f \<le> lassoX st' + lassoWidth st'
                               \<and> f_y f + f_height f \<le> lassoY st' + lassoHeight st')
                    (fields_st st'))"
    unfolding box rest inside_def by (simp only: filter_filter)
  show ?thesis
    apply (rule exI [of _ st'])
    apply (intro conjI)
         apply (rule run)
        apply (rule rest(1))
       apply (rule rest(2))
      apply (rule rest(3))
     apply (simp only: rest(4) x_def y_def)
    apply (rule sel)
    done
qed

theorem lasso_move_selects_enclosed_witness:
  "handleMouseMove (mouseAt 300 320) (Some sampleRect)
     ((storeState [fieldA, fieldB, fieldC, fieldD] [''C''])\<lparr> isLasso := True \<rparr>)
   = Inr ((storeState [fieldA, fieldB, fieldC, fieldD] [''A''])
            \<lparr> isLasso := True, currentPos := \<lparr> p_x = 50, p_y = 40 \<rparr> \<rparr>)"
proof -
  let ?st = "(storeState [fieldA, fieldB, fieldC, fieldD] [''C''])\<lparr> isLasso := True \<rparr>"
  have h: "isLasso ?st" "dragState ?st = None" "0 < r_width sampleRect"
    "0 < r_height sampleRect"
    by (simp_all add: storeState_def sampleRect_def)
  from lasso_move_selects_enclosed [OF h, of "mouseAt 300 320"]
  obtain st' where run: "handleMouseMove (mouseAt 300 320) (Some sampleRect) ?st = Inr st'"
    by blast
  have "handleMouseMove (mouseAt 300 320) (Some sampleRect) ?st
      = Inr ((storeState [fieldA, fieldB, fieldC, fieldD] [''A''])
            \<lparr> isLasso := True, currentPos := \<lparr> p_x = 50, p_y = 40 \<rparr> \<rparr>)"
    by (simp add: handleMouseMove_def storeState_def mouseAt_def sampleRect_def
        fieldA_def fieldB_def fieldC_def fieldD_def)
  with run show ?thesis by simp
qed

lemma snapScan_none:
  assumes "\<forall>f\<in>set flds. \<not> (f_id f \<notin> set sel \<and> f_page f = page \<and> \<bar>y - f_y f\<bar> \<le> m)"
  shows "snapScan sel page m y flds = (y, False)"
  using assms by (induction flds) (simp_all only: snapScan.simps list.set, auto)

lemma snapScan_first:
  assumes "i < length flds"
    and "f_id (flds ! i) \<notin> set sel \<and> f_page (flds ! i) = page \<and> \<bar>y - f_y (flds ! i)\<bar> \<le> m"
    and "\<forall>j<i. \<not> (f_id (flds ! j) \<notin> set sel \<and> f_page (flds ! j) = page
                    \<and> \<bar>y - f_y (flds ! j)\<bar> \<le> m)"
  shows "snapScan sel page m y flds = (f_y (flds ! i), True)"
  using assms
proof (induction flds arbitrary: i)
  case Nil
  then show ?case by simp
next
  case (Cons g flds)
  show ?case
  proof (cases i)
    case 0
    with Cons.prems(2) show ?thesis by simp
  next
    case (Suc k)
    from Cons.prems(3) Suc
    have skip: "\<not> (f_id g \<notin> set sel \<and> f_page g = page \<and> \<bar>y - f_y g\<bar> \<le> m)"
      by force
    have later: "\<forall>j<k. \<not> (f_id (flds ! j) \<notin> set sel \<and> f_page (flds ! j) = page
                    \<and> \<bar>y - f_y (flds ! j)\<bar> \<le> m)"
    proof (intro allI impI)
      fix j assume "j < k"
      then have "Suc j < i" using Suc by simp
      with Cons.prems(3) show "\<not> (f_id (flds ! j) \<notin> set sel \<and> f_page (flds ! j) = page
                    \<and> \<bar>y - f_y (flds ! j)\<bar> \<le> m)"
        by (metis nth_Cons_Suc)
    qed
    from Cons.prems(1,2) Suc have "k < length flds"
      "f_id (flds ! k) \<notin> set sel \<and> f_page (flds ! k) = page \<and> \<bar>y - f_y (flds ! k)\<bar> \<le> m"
      by simp_all
    from Cons.IH [OF this later] skip Suc show ?thesis
      by (simp only: snapScan.simps nth_Cons_Suc if_False split: if_splits) auto
  qed
qed

lemma first_index:
  assumes "\<exists>x\<in>set xs. P x"
  shows "\<exists>i<length xs. P (xs ! i) \<and> (\<forall>j<i. \<not> P (xs ! j))"
proof -
  from assms obtain x where "find P xs = Some x"
    by (cases "find P xs") (auto simp: find_None_iff)
  then show ?thesis
    unfolding find_Some_iff by blast
qed

text \<open>
  The drag branch when the pressed field is among the initial positions. The candidate
  \<open>y\<close> of that field is its initial \<open>y\<close> plus the pointer's vertical travel in percent.
  A field is near when it is not selected, is on the current page and its \<open>y\<close> is
  within \<open>5 / height * 100\<close> of the candidate. With no near field the candidate stands
  and no snap line is shown; otherwise the new \<open>y\<close> is the \<open>y\<close> of the first near
  field of the store, which is also the snap line. Every initial position moves by the
  same \<open>newY - y\<close> of the pressed field (and by the horizontal travel), then is clamped.
\<close>

theorem drag_snaps_to_first_near_field:
  fixes st :: AppState and e :: MouseEvent and rect :: DOMRect and ds :: DragState
  defines "deltaX \<equiv> ((clientX e - startX ds) / r_width rect) * 100"
    and "deltaY \<equiv> ((clientY e - startY ds) / r_height rect) * 100"
  assumes ds: "dragState st = Some ds"
    and anchor: "find (\<lambda>p. ip_id p = mainFieldId ds) (initialPositions ds) = Some anchor"
    and rect: "0 < r_width rect" "0 < r_height rect"
  defines "near \<equiv> \<lambda>f. f_id f \<notin> set (selectedFieldIds st) \<and> f_page f = currentPage st
                        \<and> \<bar>ip_y anchor + deltaY - f_y f\<bar> \<le> (5 / r_height rect) * 100"
  shows "\<exists>newY snap.
           ((\<forall>f\<in>set (fields_st st). \<not> near f) \<longrightarrow> newY = ip_y anchor + deltaY \<and> snap = None)
         \<and> (\<forall>i<length (fields_st st).
               near (fields_st st ! i) \<and> (\<forall>j<i. \<not> near (fields_st st ! j))
               \<longrightarrow> newY = f_y (fields_st st ! i) \<and> snap = Some (f_y (fields_st st ! i)))
         \<and> dragMove e rect ds (fields_st st) (selectedFieldIds st) (currentPage st) =
             Inr (map (\<lambda>pos. \<lparr> u_id = ip_id pos,
                               u_x = max 0 (min (100 - ip_width pos) (ip_x pos + deltaX)),
                               u_y = max 0 (min (100 - ip_height pos)
                                                (ip_y pos + (newY - ip_y anchor))) \<rparr>)
                      (initialPositions ds), snap)
         \<and> handleMouseMove e (Some rect) st =
             Inr (onUpdateFields
                    (map (\<lambda>pos. \<lparr> u_id = ip_id pos,
                                  u_x = max 0 (min (100 - ip_width pos) (ip_x pos + deltaX)),
                                  u_y = max 0 (min (100 - ip_height pos)
                                                   (ip_y pos + (newY - ip_y anchor))) \<rparr>)
                         (initialPositions ds))
                    (st\<lparr> snapLineY := snap \<rparr>))"
proof -
  define scan where
    "scan = snapScan (selectedFieldIds st) (currentPage st) ((5 / r_height rect) * 100)
              (ip_y anchor + deltaY) (fields_st st)"
  define newY where "newY = fst scan"
  define snap where "snap = (if snd scan then Some newY else None)"
  define updates where
    "updates = map (\<lambda>pos. \<lparr> u_id = ip_id pos,
                               u_x = max 0 (min (100 - ip_width pos) (ip_x pos + deltaX)),
                               u_y = max 0 (min (100 - ip_height pos)
                                                (ip_y pos + (newY - ip_y anchor))) \<rparr>)
                      (initialPositions ds)"
  have dx: "deltaX = ((clientX e - startX ds) / r_width rect) * 100"
    and dy: "deltaY = ((clientY e - startY ds) / r_height rect) * 100"
    by (simp_all only: deltaX_def deltaY_def)
  have none: "newY = ip_y anchor + deltaY \<and> snap = None"
    if "\<forall>f\<in>set (fields_st st). \<not> near f"
  proof -
    from that have "scan = (ip_y anchor + deltaY, False)"
      unfolding scan_def near_def by (rule snapScan_none)
    then show ?thesis by (simp add: newY_def snap_def)
  qed
  have first: "newY = f_y (fields_st st ! i) \<and> snap = Some (f_y (fields_st st ! i))"
    if "i < length (fields_st st)"
      and "near (fields_st st ! i) \<and> (\<forall>j<i. \<not> near (fields_st st ! j))" for i
  proof -
    from that have "scan = (f_y (fields_st st ! i), True)"
      unfolding scan_def near_def by (intro snapScan_first) blast+
    then show ?thesis by (simp add: newY_def snap_def)
  qed
  have dm: "dragMove e rect ds (fields_st st) (selectedFieldIds st) (currentPage st) =
             Inr (updates, snap)"
    unfolding dragMove_def Let_def anchor option.case case_prod_beta
      updates_def snap_def newY_def scan_def dx dy
    by (rule refl)
  have hm: "handleMouseMove e (Some rect) st =
             Inr (onUpdateFields updates (st\<lparr> snapLineY := snap \<rparr>))"
    unfolding handleMouseMove_def option.case ds dm sum.case prod.case
    by (rule refl)
  have A: "(\<forall>f\<in>set (fields_st st). \<not> near f) \<longrightarrow> newY = ip_y anchor + deltaY \<and> snap = None"
    using none by blast
  have B: "\<forall>i<length (fields_st st).
               near (fields_st st ! i) \<and> (\<forall>j<i. \<not> near (fields_st st ! j))
               \<longrightarrow> newY = f_y (fields_st st ! i) \<and> snap = Some (f_y (fields_st st ! i))"
    using first by blast
  show ?thesis
    by (intro exI [of _ newY] exI [of _ snap] conjI A B
        dm [unfolded updates_def] hm [unfolded updates_def])
qed

theorem drag_snaps_to_first_near_field_witness:
  "handleMouseMove (mouseAt 160 257) (Some sampleRect)
     (fieldMouseDown fieldA (mouseAt 100 100) (storeState [fieldA, fieldB, fieldC] []))
   = Inr ((fieldMouseDown fieldA (mouseAt 100 100) (storeState [fieldA, fieldB, fieldC] []))
            \<lparr> fields_st := [fieldA\<lparr> f_x := 20, f_y := 30 \<rparr>, fieldB, fieldC],
              snapLineY := Some 30 \<rparr>)"
proof -
  let ?st = "fieldMouseDown fieldA (mouseAt 100 100) (storeState [fieldA, fieldB, fieldC] [])"
  let ?ds = "\<lparr> startX = 100, startY = 100, initialPositions = [snapshot fieldA],
               mainFieldId = ''A'' \<rparr>"
  have st: "?st = (storeState [fieldA, fieldB, fieldC] [''A''])\<lparr> dragState := Some ?ds \<rparr>"
    by (simp add: fieldMouseDown_def storeState_def mouseAt_def fieldA_def fieldB_def
        fieldC_def Let_def)
  have h: "dragState ?st = Some ?ds"
    "find (\<lambda>p. ip_id p = mainFieldId ?ds) (initialPositions ?ds) = Some (snapshot fieldA)"
    "0 < r_width sampleRect" "0 < r_height sampleRect"
    unfolding st by (simp_all add: snapshot_def fieldA_def sampleRect_def)
  from drag_snaps_to_first_near_field [OF h, of "mouseAt 160 257"]
  obtain newY snap where
    first: "\<forall>i<length (fields_st ?st).
        (f_id (fields_st ?st ! i) \<notin> set (selectedFieldIds ?st)
          \<and> f_page (fields_st ?st ! i) = currentPage ?st
          \<and> \<bar>ip_y (snapshot fieldA)
               + ((clientY (mouseAt 160 257) - startY ?ds) / r_height sampleRect) * 100
               - f_y (fields_st ?st ! i)\<bar> \<le> (5 / r_height sampleRect) * 100)
        \<and> (\<forall>j<i. \<not> (f_id (fields_st ?st ! j) \<notin> set (selectedFieldIds ?st)
          \<and> f_page (fields_st ?st ! j) = currentPage ?st
          \<and> \<bar>ip_y (snapshot fieldA)
               + ((clientY (mouseAt 160 257) - startY ?ds) / r_height sampleRect) * 100
               - f_y (fields_st ?st ! j)\<bar> \<le> (5 / r_height sampleRect) * 100))
        \<longrightarrow> newY = f_y (fields_st ?st ! i) \<and> snap = Some (f_y (fields_st ?st ! i))"
    and run: "handleMouseMove (mouseAt 160 257) (Some sampleRect) ?st =
             Inr (onUpdateFields
                    (map (\<lambda>pos. \<lparr> u_id = ip_id pos,
                                  u_x = max 0 (min (100 - ip_width pos)
                                     (ip_x pos + ((clientX (mouseAt 160 257) - startX ?ds)
                                                    / r_width sampleRect) * 100)),
                                  u_y = max 0 (min (100 - ip_height pos)
                                                   (ip_y pos + (newY - ip_y (snapshot fieldA)))) \<rparr>)
                         (initialPositions ?ds))
                    (?st\<lparr> snapLineY := snap \<rparr>))"
    by blast
  have "newY = f_y (fields_st ?st ! 1) \<and> snap = Some (f_y (fields_st ?st ! 1))"
  proof -
    have "1 < length (fields_st ?st)" unfolding st by (simp add: storeState_def)
    moreover have "(f_id (fields_st ?st ! 1) \<notin> set (selectedFieldIds ?st)
          \<and> f_page (fields_st ?st ! 1) = currentPage ?st
          \<and> \<bar>ip_y (snapshot fieldA)
               + ((clientY (mouseAt 160 257) - startY ?ds) / r_height sampleRect) * 100
               - f_y (fields_st ?st ! 1)\<bar> \<le> (5 / r_height sampleRect) * 100)
        \<and> (\<forall>j<1. \<not> (f_id (fields_st ?st ! j) \<notin> set (selectedFieldIds ?st)
          \<and> f_page (fields_st ?st ! j) = currentPage ?st
          \<and> \<bar>ip_y (snapshot fieldA)
               + ((clientY (mouseAt 160 257) - startY ?ds) / r_height sampleRect) * 100
               - f_y (fields_st ?st ! j)\<bar> \<le> (5 / r_height sampleRect) * 100))"
      unfolding st
      by (simp add: storeState_def snapshot_def fieldA_def fieldB_def mouseAt_def
          sampleRect_def)
    ultimately show ?thesis using first by blast
  qed
  then have "newY = 30" "snap = Some 30"
    unfolding st by (simp_all add: storeState_def fieldB_def)
  with run show ?thesis
    unfolding st
    by (simp add: onUpdateFields_def applyUpdates_def updateField_def storeState_def snapshot_def
        fieldA_def fieldB_def fieldC_def mouseAt_def sampleRect_def)
qed

text \<open>
  C4. A press with Ctrl held on a selected field takes the field out of the selection and
  starts a drag of the fields that stay selected, with the pressed field as the main
  field but not among the initial positions. The next pointer move throws when it reads
  the initial \<open>y\<close> of the main field: nothing snaps and nothing moves, although the
  candidate \<open>y\<close>, 10 + 40, is the \<open>y\<close> of the unselected field C.
\<close>

theorem drag_after_modifier_press_throws:
  "selectedFieldIds
     (fieldMouseDown fieldA (ctrlMouseAt 100 100)
        (storeState [fieldA, fieldB, fieldC] [''A'', ''B'']))
     = [''B'']
   \<and> dragState
     (fieldMouseDown fieldA (ctrlMouseAt 100 100)
        (storeState [fieldA, fieldB, fieldC] [''A'', ''B'']))
     = Some \<lparr> startX = 100, startY = 100, initialPositions = [snapshot fieldB],
              mainFieldId = ''A'' \<rparr>
   \<and> handleMouseMove (mouseAt 100 420) (Some sampleRect)
     (fieldMouseDown fieldA (ctrlMouseAt 100 100)
        (storeState [fieldA, fieldB, fieldC] [''A'', ''B'']))
     = Inl TypeError"
  by (simp add: handleMouseMove_def dragMove_def fieldMouseDown_def snapshot_def
      storeState_def fieldA_def fieldB_def fieldC_def mouseAt_def ctrlMouseAt_def
      sampleRect_def Let_def)

text \<open>
  C7. With the drawing mode switched on, a press on the empty overlay still starts the
  lasso and leaves the drawing flag set: both are on. The release then ends the lasso
  only; no field is drawn and the drawing flag stays.
\<close>

theorem pointer_down_in_drawing_mode:
  "isDrawing (toggleDrawing initialState)
   \<and> \<not> isLasso (toggleDrawing initialState)
   \<and> isDrawing (handleMouseDown (mouseAt 60 80) sampleRect (toggleDrawing initialState))
   \<and> isLasso (handleMouseDown (mouseAt 60 80) sampleRect (toggleDrawing initialState))
   \<and> map_sum id (fields_st \<circ> handleMouseUp sample_ids)
        (handleMouseMove (mouseAt 300 400) (Some sampleRect)
           (handleMouseDown (mouseAt 60 80) sampleRect (toggleDrawing initialState)))
       = Inr []
   \<and> map_sum id (isDrawing \<circ> handleMouseUp sample_ids)
        (handleMouseMove (mouseAt 300 400) (Some sampleRect)
           (handleMouseDown (mouseAt 60 80) sampleRect (toggleDrawing initialState)))
       = Inr True"
  by (simp add: toggleDrawing_def initialState_def handleMouseDown_def handleMouseMove_def
      handleMouseUp_def mouseAt_def sampleRect_def Let_def)

end
